theory Spec2Isabelle
  imports Main
begin

section \<open>Python values\<close>

text \<open>
  The module is Python, so the arguments of \<open>Shortcut\<close> are dynamically typed. The
  values the setters tell apart are modelled by two types: \<open>atom\<close> for a scalar
  (\<open>None\<close>, a \<open>bool\<close>, an \<open>int\<close>, a \<open>str\<close>, a \<open>pathlib.Path\<close>) and
  \<open>pyval\<close> for a scalar or a \<open>list\<close> of scalars. Floats, dicts, tuples and nested
  lists are not modelled. A \<open>str\<close> is a \<open>string\<close> whose characters stand for the code
  points below 256.
\<close>

datatype error = TypeError | AttributeError | KeyError | IndexError | OtherError

text \<open>
  A \<open>pathlib\<close> path on a POSIX system: its \<open>root\<close> (\<open>''''\<close>, \<open>''/''\<close> or \<open>''//''\<close>)
  and the components that follow it.
\<close>

datatype path = PurePath (root: string) (tail: "string list")

datatype atom = ANone | ABool bool | AInt int | AStr string | APath path

datatype pyval = Atom atom | PList "atom list"

subsection \<open>Strings\<close>

text \<open>\<open>str.isspace\<close> on one character, which is also \<open>\s\<close> of \<open>re\<close>.\<close>

definition isspace :: "char \<Rightarrow> bool" where
  "isspace c = ((of_char c :: nat) \<in> set [9, 10, 11, 12, 13, 28, 29, 30, 31, 32, 133, 160])"

text \<open>\<open>s.strip()\<close>\<close>

definition strip :: "string \<Rightarrow> string" where
  "strip s = rev (dropWhile isspace (rev (dropWhile isspace s)))"

text \<open>\<open>s.startswith(pre)\<close>\<close>

definition startswith :: "string \<Rightarrow> string \<Rightarrow> bool" where
  "startswith s pre = (take (length pre) s = pre)"

text \<open>\<open>s.split(sep)\<close> for a separator of one character.\<close>

fun split_char :: "char \<Rightarrow> string \<Rightarrow> string list" where
  "split_char sep [] = [[]]"
| "split_char sep (c # cs) =
     (if c = sep then [] # split_char sep cs
      else (case split_char sep cs of
              [] \<Rightarrow> [[c]]
            | x # xs \<Rightarrow> (c # x) # xs))"

text \<open>\<open>s.split('::')\<close>: cut at each occurrence of the separator, found left to right.\<close>

fun split_dcolon :: "string \<Rightarrow> string list" where
  "split_dcolon [] = [[]]"
| "split_dcolon [c] = [[c]]"
| "split_dcolon (c # d # cs) =
     (if c = CHR '':'' \<and> d = CHR '':'' then [] # split_dcolon cs
      else (case split_dcolon (d # cs) of
              [] \<Rightarrow> [[c]]
            | x # xs \<Rightarrow> (c # x) # xs))"

text \<open>
  \<open>re.split(r',\s*|\s+', s)\<close>: a match starts at a comma or at a whitespace character
  and, in both alternatives, takes every whitespace character that follows; the pieces
  between the matches are returned, empty ones included.
\<close>

function re_split :: "string \<Rightarrow> string \<Rightarrow> string list" where
  "re_split acc [] = [acc]"
| "re_split acc (c # cs) =
     (if c = CHR '','' then acc # re_split [] (dropWhile isspace cs)
      else if isspace c then acc # re_split [] (dropWhile isspace cs)
      else re_split (acc @ [c]) cs)"
  by pat_completeness auto
termination
  by (relation "measure (\<lambda>(acc, s). length s)")
     (auto simp: le_imp_less_Suc length_dropWhile_le)

text \<open>\<open>sep.join(xs)\<close>\<close>

fun join :: "string \<Rightarrow> string list \<Rightarrow> string" where
  "join sep [] = []"
| "join sep [x] = x"
| "join sep (x # y # ys) = x @ sep @ join sep (y # ys)"

subsection \<open>\<open>str\<close> and truth of a scalar\<close>

definition digit_char :: "nat \<Rightarrow> char" where
  "digit_char d = char_of (48 + d)"

function str_nat :: "nat \<Rightarrow> string" where
  "str_nat n = (if n < 10 then [digit_char n] else str_nat (n div 10) @ [digit_char (n mod 10)])"
  by pat_completeness auto
termination
  by (relation "measure (\<lambda>n. n)") auto

definition str_int :: "int \<Rightarrow> string" where
  "str_int i = (if i < 0 then CHR ''-'' # str_nat (nat (- i)) else str_nat (nat i))"

text \<open>\<open>str(p)\<close> of a path: the root and the components joined by \<open>/\<close>; the empty path prints as a dot.\<close>

definition str_path :: "path \<Rightarrow> string" where
  "str_path p = (if root p = [] \<and> tail p = [] then ''.'' else root p @ join ''/'' (tail p))"

fun py_str :: "atom \<Rightarrow> string" where
  "py_str ANone = ''None''"
| "py_str (ABool b) = (if b then ''True'' else ''False'')"
| "py_str (AInt i) = str_int i"
| "py_str (AStr s) = s"
| "py_str (APath p) = str_path p"

text \<open>The truth value Python gives a scalar in \<open>if s\<close>; a path object is always true.\<close>

fun truthy :: "atom \<Rightarrow> bool" where
  "truthy ANone = False"
| "truthy (ABool b) = b"
| "truthy (AInt i) = (i \<noteq> 0)"
| "truthy (AStr s) = (s \<noteq> [])"
| "truthy (APath p) = True"

fun truthy_val :: "pyval \<Rightarrow> bool" where
  "truthy_val (Atom a) = truthy a"
| "truthy_val (PList xs) = (xs \<noteq> [])"

text \<open>
  \<open>a == b\<close>. Values of different types are unequal, except that a \<open>bool\<close> is the
  \<open>int\<close> 0 or 1. In particular a \<open>str\<close> and a \<open>Path\<close> are never equal: neither class
  compares itself with the other, and Python then falls back on identity.
\<close>

fun atom_eq :: "atom \<Rightarrow> atom \<Rightarrow> bool" where
  "atom_eq ANone ANone = True"
| "atom_eq (ABool a) (ABool b) = (a = b)"
| "atom_eq (ABool a) (AInt j) = ((if a then 1 else 0) = j)"
| "atom_eq (AInt i) (ABool b) = (i = (if b then 1 else 0))"
| "atom_eq (AInt i) (AInt j) = (i = j)"
| "atom_eq (AStr s) (AStr t) = (s = t)"
| "atom_eq (APath p) (APath q) = (p = q)"
| "atom_eq _ _ = False"

fun py_eq :: "pyval \<Rightarrow> pyval \<Rightarrow> bool" where
  "py_eq (Atom a) (Atom b) = atom_eq a b"
| "py_eq (PList xs) (PList ys) = list_all2 atom_eq xs ys"
| "py_eq _ _ = False"

text \<open>\<open>s in xs\<close> for a list or tuple \<open>xs\<close> of strings.\<close>

definition py_in :: "pyval \<Rightarrow> string list \<Rightarrow> bool" where
  "py_in s xs = list_ex (\<lambda>x. py_eq (Atom (AStr x)) s) xs"

subsection \<open>\<open>pathlib\<close>\<close>

text \<open>\<open>posixpath.splitroot\<close>: the root of a path text and what follows it.\<close>

definition splitroot :: "string \<Rightarrow> string \<times> string" where
  "splitroot p =
     (if take 1 p = ''/'' then
        (if take 1 (drop 1 p) = ''/'' \<and> take 1 (drop 2 p) \<noteq> ''/'' then (take 2 p, drop 2 p)
         else (''/'', drop 1 p))
      else ([], p))"

text \<open>\<open>Path(s)\<close> of a \<open>str\<close>: empty components and single dots are dropped.\<close>

definition parse_path :: "string \<Rightarrow> path" where
  "parse_path s =
     (case splitroot s of
        (r, rel) \<Rightarrow> PurePath r (filter (\<lambda>x. x \<noteq> [] \<and> x \<noteq> ''.'') (split_char CHR ''/'' rel)))"

text \<open>\<open>Path(a)\<close>: only a \<open>str\<close> or a path is accepted.\<close>

fun Path :: "atom \<Rightarrow> error + path" where
  "Path (AStr s) = Inr (parse_path s)"
| "Path (APath p) = Inr p"
| "Path _ = Inl TypeError"

text \<open>\<open>p / s\<close>\<close>

definition joinpath :: "path \<Rightarrow> string \<Rightarrow> path" where
  "joinpath p s =
     (let q = parse_path s in
      if root q = [] then PurePath (root p) (tail p @ tail q) else q)"

text \<open>\<open>p.name\<close>: the last component.\<close>

definition path_name :: "path \<Rightarrow> string" where
  "path_name p = (case rev (tail p) of [] \<Rightarrow> [] | x # _ \<Rightarrow> x)"

text \<open>\<open>s.rfind('.')\<close>, as an option: the index of the last dot.\<close>

fun rfind_dot :: "string \<Rightarrow> nat option" where
  "rfind_dot [] = None"
| "rfind_dot (c # cs) =
     (case rfind_dot cs of
        Some i \<Rightarrow> Some (Suc i)
      | None \<Rightarrow> (if c = CHR ''.'' then Some 0 else None))"

text \<open>
  \<open>p.suffix\<close>: the last component from its last dot on, the dot included, when that dot
  is neither its first nor its last character; the empty string otherwise.
\<close>

definition suffix :: "path \<Rightarrow> string" where
  "suffix p =
     (let n = path_name p in
      case rfind_dot n of
        None \<Rightarrow> []
      | Some i \<Rightarrow> (if 0 < i \<and> i < length n - 1 then drop i n else []))"

section \<open>Module constants\<close>

text \<open>\<open>_get_platform()\<close>, as a function of \<open>sys.platform\<close> and \<open>os.name\<close>. A Python
  function that reaches its end returns \<open>None\<close>.\<close>

definition get_platform :: "string \<Rightarrow> string \<Rightarrow> string option" where
  "get_platform sys_platform os_name =
     (if sys_platform = ''darwin'' then Some ''darwin''
      else if os_name = ''nt'' \<or> startswith sys_platform ''win'' then Some ''win''
      else if startswith sys_platform ''linux'' then Some ''linux''
      else None)"

definition FREE_DESKTOP_CATEGORIES :: "string list" where
  "FREE_DESKTOP_CATEGORIES =
     [''AudioVideo'', ''Audio'', ''Video'', ''Development'',
      ''Education'', ''Game'', ''Graphics'', ''Network'',
      ''Office'', ''Settings'', ''System'', ''Utility'']"

definition LINUX_SPECIAL_ARGS :: "(string \<times> string) list" where
  "LINUX_SPECIAL_ARGS =
     [(''SINGLE_FILE'', ''%f''), (''FILES_LIST'', ''%F''),
      (''SINGLE_URL'', ''%u''), (''URLS_LIST'', ''%U'')]"

definition ICON_EXT :: "(string \<times> string list) list" where
  "ICON_EXT =
     [(''linux'', [''ico'', ''svg'', ''png'']), (''win'', [''ico'']), (''darwin'', [''icns''])]"

text \<open>\<open>_ICON_EXT[k]\<close> where \<open>k\<close> is what \<open>_get_platform()\<close> returned; a key that is not in
  the dict, \<open>None\<close> included, raises \<open>KeyError\<close>.\<close>

definition ICON_EXT_getitem :: "string option \<Rightarrow> error + string list" where
  "ICON_EXT_getitem k =
     (case k of
        None \<Rightarrow> Inl KeyError
      | Some t \<Rightarrow> (case map_of ICON_EXT t of None \<Rightarrow> Inl KeyError | Some exts \<Rightarrow> Inr exts))"

section \<open>The \<open>Shortcut\<close> class\<close>

text \<open>The attributes of an instance, as the property setters store them.\<close>

record shortcut =
  script :: string
  name :: string
  generic_name :: string
  description :: string
  icon :: "path list"
  arguments :: "string list"
  special_arg :: string
  category :: string
  "keywords" :: "string list"
  mime_type :: "string list"

text \<open>An exception ends the computation: the first \<open>Inl\<close> is the result.\<close>

definition and_then :: "error + 'a \<Rightarrow> ('a \<Rightarrow> error + 'b) \<Rightarrow> error + 'b" where
  "and_then r f = (case r of Inl e \<Rightarrow> Inl e | Inr x \<Rightarrow> f x)"

subsection \<open>The scalar setters: \<open>str(s) if s else ''\<close>\<close>

definition script_setter :: "atom \<Rightarrow> shortcut \<Rightarrow> shortcut" where
  "script_setter s self = self\<lparr>script := (if truthy s then py_str s else [])\<rparr>"

definition name_setter :: "atom \<Rightarrow> shortcut \<Rightarrow> shortcut" where
  "name_setter s self = self\<lparr>name := (if truthy s then py_str s else [])\<rparr>"

definition generic_name_setter :: "atom \<Rightarrow> shortcut \<Rightarrow> shortcut" where
  "generic_name_setter s self = self\<lparr>generic_name := (if truthy s then py_str s else [])\<rparr>"

definition description_setter :: "atom \<Rightarrow> shortcut \<Rightarrow> shortcut" where
  "description_setter s self = self\<lparr>description := (if truthy s then py_str s else [])\<rparr>"

subsection \<open>The \<open>icon\<close> setter\<close>

text \<open>\<open>[Path(i) for i in s]\<close>\<close>

fun Path_list :: "atom list \<Rightarrow> error + path list" where
  "Path_list [] = Inr []"
| "Path_list (a # rest) =
     (case Path a of
        Inl e \<Rightarrow> Inl e
      | Inr p \<Rightarrow> (case Path_list rest of Inl e \<Rightarrow> Inl e | Inr ps \<Rightarrow> Inr (p # ps)))"

text \<open>
  The loop \<open>for i in self._icon: if i.root != _here: raise AttributeError\<close>. The left
  side of the comparison is the \<open>str\<close> that \<open>root\<close> returns, the right side is the path
  object \<open>_here\<close>.
\<close>

fun check_icons :: "path \<Rightarrow> path list \<Rightarrow> error + unit" where
  "check_icons hr [] = Inr ()"
| "check_icons hr (i # rest) =
     (if \<not> atom_eq (AStr (root i)) (APath hr) then Inl AttributeError
      else check_icons hr rest)"

text \<open>
  The setter stores the list first and checks it afterwards. The model returns the
  exception alone: what the instance holds after a failed assignment is not kept.
\<close>

definition icon_setter :: "path \<Rightarrow> pyval \<Rightarrow> shortcut \<Rightarrow> error + shortcut" where
  "icon_setter hr s self =
     and_then
       (case s of
          PList xs \<Rightarrow> Path_list xs
        | Atom a \<Rightarrow> (if truthy a then and_then (Path a) (\<lambda>p. Inr [p]) else Inr []))
       (\<lambda>ps. and_then (check_icons hr ps) (\<lambda>u. Inr (self\<lparr>icon := ps\<rparr>)))"

subsection \<open>The list setters: \<open>arguments\<close>, \<open>keywords\<close>, \<open>mime_type\<close>\<close>

text \<open>The three setters have the same body, which computes the list to store.\<close>

definition str_list :: "pyval \<Rightarrow> error + string list" where
  "str_list s =
     (case s of
        PList xs \<Rightarrow> Inr (map py_str xs)
      | Atom a \<Rightarrow>
          (case a of
             AStr t \<Rightarrow> Inr (re_split [] t)
           | ANone \<Rightarrow> Inr []
           | ABool b \<Rightarrow> Inl TypeError
           | AInt i \<Rightarrow> Inl TypeError
           | APath p \<Rightarrow> Inl TypeError))"

definition arguments_setter :: "pyval \<Rightarrow> shortcut \<Rightarrow> error + shortcut" where
  "arguments_setter s self = and_then (str_list s) (\<lambda>l. Inr (self\<lparr>arguments := l\<rparr>))"

definition keywords_setter :: "pyval \<Rightarrow> shortcut \<Rightarrow> error + shortcut" where
  "keywords_setter s self = and_then (str_list s) (\<lambda>l. Inr (self\<lparr>keywords := l\<rparr>))"

definition mime_type_setter :: "pyval \<Rightarrow> shortcut \<Rightarrow> error + shortcut" where
  "mime_type_setter s self = and_then (str_list s) (\<lambda>l. Inr (self\<lparr>mime_type := l\<rparr>))"

subsection \<open>The enumerated setters: \<open>special_arg\<close>, \<open>category\<close>\<close>

text \<open>
  \<open>s in _LINUX_SPECIAL_ARGS\<close> hashes \<open>s\<close>, so a list raises \<open>TypeError\<close> there. The value
  stored is \<open>s\<close> itself, which is a \<open>str\<close> whenever it equals a key.
\<close>

definition special_arg_setter :: "pyval \<Rightarrow> shortcut \<Rightarrow> error + shortcut" where
  "special_arg_setter s self =
     (case s of
        PList xs \<Rightarrow> Inl TypeError
      | Atom a \<Rightarrow>
          (if py_in s (map fst LINUX_SPECIAL_ARGS) then
             (case a of AStr t \<Rightarrow> Inr (self\<lparr>special_arg := t\<rparr>) | _ \<Rightarrow> Inl TypeError)
           else if a = ANone then Inr (self\<lparr>special_arg := []\<rparr>)
           else Inl TypeError))"

text \<open>
  \<open>s in _FREE_DESKTOP_CATEGORIES\<close> compares \<open>s\<close> with each name of the list. The value
  stored is \<open>s\<close> itself, which is a \<open>str\<close> whenever it equals a name.
\<close>

definition category_setter :: "pyval \<Rightarrow> shortcut \<Rightarrow> error + shortcut" where
  "category_setter s self =
     (if py_in s FREE_DESKTOP_CATEGORIES then
        (case s of Atom (AStr c) \<Rightarrow> Inr (self\<lparr>category := c\<rparr>) | _ \<Rightarrow> Inl TypeError)
      else if s = Atom ANone then Inr (self\<lparr>category := []\<rparr>)
      else Inl TypeError)"

subsection \<open>Construction and the registry\<close>

text \<open>The arguments of \<open>Shortcut(...)\<close>; all but \<open>script\<close> default to \<open>None\<close>.\<close>

record kwargs =
  kw_script :: atom
  kw_name :: atom
  kw_generic_name :: atom
  kw_description :: atom
  kw_icon :: pyval
  kw_arguments :: pyval
  kw_special_arg :: pyval
  kw_category :: pyval
  kw_keywords :: pyval
  kw_mime_type :: pyval

definition defaults :: "atom \<Rightarrow> kwargs" where
  "defaults s =
     \<lparr>kw_script = s, kw_name = ANone, kw_generic_name = ANone, kw_description = ANone,
      kw_icon = Atom ANone, kw_arguments = Atom ANone, kw_special_arg = Atom ANone,
      kw_category = Atom ANone, kw_keywords = Atom ANone, kw_mime_type = Atom ANone\<rparr>"

text \<open>
  A fresh instance has no attribute yet. \<open>__init__\<close> assigns every one of them before
  any is read, so the start value, \<open>blank\<close>, shows in no result.
\<close>

definition blank :: shortcut where
  "blank =
     \<lparr>script = [], name = [], generic_name = [], description = [], icon = [],
      arguments = [], special_arg = [], category = [], keywords = [], mime_type = []\<rparr>"

text \<open>\<open>__init__\<close>: the ten assignments in the order of the source; \<open>hr\<close> is \<open>_here\<close>.\<close>

definition Shortcut_init :: "path \<Rightarrow> kwargs \<Rightarrow> shortcut \<Rightarrow> error + shortcut" where
  "Shortcut_init hr kw self =
     and_then
       (icon_setter hr (kw_icon kw)
          (description_setter (kw_description kw)
             (generic_name_setter (kw_generic_name kw)
                (name_setter (kw_name kw) (script_setter (kw_script kw) self)))))
       (\<lambda>s5. and_then (arguments_setter (kw_arguments kw) s5)
       (\<lambda>s6. and_then (special_arg_setter (kw_special_arg kw) s6)
       (\<lambda>s7. and_then (category_setter (kw_category kw) s7)
       (\<lambda>s8. and_then (keywords_setter (kw_keywords kw) s8)
       (\<lambda>s9. mime_type_setter (kw_mime_type kw) s9)))))"

text \<open>What \<open>__eq__\<close> is given: another instance, or a value of another type.\<close>

datatype pyobj = Obj shortcut | Val pyval

definition Shortcut_eq :: "shortcut \<Rightarrow> pyobj \<Rightarrow> bool" where
  "Shortcut_eq self other = (case other of Obj s \<Rightarrow> name s = name self | Val v \<Rightarrow> False)"

text \<open>\<open>__hash__\<close>; \<open>h\<close> is Python's hash of a \<open>str\<close>, which is chosen anew for each
  process, so it is a parameter.\<close>

definition Shortcut_hash :: "(string \<Rightarrow> int) \<Rightarrow> shortcut \<Rightarrow> int" where
  "Shortcut_hash h self = h (name self)"

text \<open>
  \<open>Shortcut._instances\<close>, a Python \<open>set\<close>. The list gives its elements in the order in
  which a \<open>for\<close> loop meets them. With each element the set keeps the hash the element
  had when it was added, and it never computes that hash again: an element whose \<open>name\<close>
  is assigned later stays filed under the old hash.
\<close>

type_synonym registry = "(int \<times> shortcut) list"

text \<open>
  \<open>_instances.add(x)\<close>. The set looks for an element with the same stored hash that
  \<open>__eq__\<close> finds equal to \<open>x\<close>; when there is one, nothing changes. Otherwise \<open>x\<close> is
  added. Where it then stands in the iteration order depends on the hash and on the
  table, which Python leaves open: \<open>pos\<close> is that place.
\<close>

definition set_add :: "(string \<Rightarrow> int) \<Rightarrow> nat \<Rightarrow> shortcut \<Rightarrow> registry \<Rightarrow> registry" where
  "set_add h pos x reg =
     (if list_ex (\<lambda>(k, y). k = Shortcut_hash h x \<and> Shortcut_eq y (Obj x)) reg then reg
      else take pos reg @ [(Shortcut_hash h x, x)] @ drop pos reg)"

text \<open>
  \<open>__new__\<close>: make the instance, run \<open>__init__\<close> on it, add it to the registry. Python
  then runs \<open>__init__\<close> once more with the same arguments, which assigns the same
  values again (lemma \<open>Shortcut_init_again\<close>).
\<close>

definition Shortcut_new ::
  "path \<Rightarrow> (string \<Rightarrow> int) \<Rightarrow> nat \<Rightarrow> kwargs \<Rightarrow> registry \<Rightarrow> error + shortcut \<times> registry" where
  "Shortcut_new hr h pos kw reg =
     and_then (Shortcut_init hr kw blank) (\<lambda>instance. Inr (instance, set_add h pos instance reg))"

section \<open>The build command: \<open>_get_metadatas\<close>\<close>

text \<open>
  What the command reads from outside the module: the directory of the module, the
  platform, the file system, and the metadata of the distribution.
\<close>

record env =
  here :: path
  sys_platform :: string
  os_name :: string
  is_dir :: "path \<Rightarrow> bool"
  path_exists :: "path \<Rightarrow> bool"
  glob :: "path \<Rightarrow> string \<Rightarrow> error + path list"
  get_description :: atom
  get_classifiers :: "string list"
  get_keywords :: pyval

text \<open>The scan of the registry: the index of the first element whose \<open>script\<close> is the
  one asked for.\<close>

fun scan :: "string \<Rightarrow> registry \<Rightarrow> nat option" where
  "scan scr [] = None"
| "scan scr ((k, s) # rest) =
     (if script s = scr then Some 0 else map_option Suc (scan scr rest))"

text \<open>
  \<open>[icon for icon in icons if icon.suffix in _ICON_EXT[_get_platform()]]\<close>: the condition,
  and with it the lookup in \<open>_ICON_EXT\<close>, is evaluated once for each path found.
\<close>

fun filter_icons :: "env \<Rightarrow> path list \<Rightarrow> error + path list" where
  "filter_icons e [] = Inr []"
| "filter_icons e (p # ps) =
     (case ICON_EXT_getitem (get_platform (sys_platform e) (os_name e)) of
        Inl err \<Rightarrow> Inl err
      | Inr exts \<Rightarrow>
          (case filter_icons e ps of
             Inl err \<Rightarrow> Inl err
           | Inr r \<Rightarrow> Inr (if py_in (Atom (AStr (suffix p))) exts then p # r else r)))"

text \<open>
  The loop \<open>for ic in shortcut.icon: if not ic.exists(): shortcut.icon.remove(ic)\<close>.
  The iterator of a list keeps an index \<open>i\<close> and stops when \<open>i\<close> reaches the length the
  list has by then; \<open>remove\<close> deletes the first element equal to its argument.
\<close>

function remove_missing :: "(path \<Rightarrow> bool) \<Rightarrow> nat \<Rightarrow> path list \<Rightarrow> path list" where
  "remove_missing ex i xs =
     (if i < length xs then
        (if \<not> ex (xs ! i) then remove_missing ex (Suc i) (remove1 (xs ! i) xs)
         else remove_missing ex (Suc i) xs)
      else xs)"
  by pat_completeness auto
termination
  by (relation "measure (\<lambda>(ex, i, xs). length xs - i)") (auto simp: length_remove1)

text \<open>
  The classifier loop. For each classifier whose first segment is \<open>Topic\<close> the inner
  loop assigns the first segment that is a category and leaves the inner loop; the outer
  loop then goes on with the next classifier.
\<close>

fun scan_classifiers :: "string list \<Rightarrow> shortcut \<Rightarrow> error + shortcut" where
  "scan_classifiers [] self = Inr self"
| "scan_classifiers (cf # cfs) self =
     (case map strip (split_dcolon cf) of
        [] \<Rightarrow> Inl IndexError
      | c0 # rest \<Rightarrow>
          (if c0 = ''Topic'' then
             (case List.find (\<lambda>c. py_in (Atom (AStr c)) FREE_DESKTOP_CATEGORIES) (c0 # rest) of
                None \<Rightarrow> scan_classifiers cfs self
              | Some c \<Rightarrow>
                  (case category_setter (Atom (AStr c)) self of
                     Inl err \<Rightarrow> Inl err
                   | Inr self' \<Rightarrow> scan_classifiers cfs self'))
           else scan_classifiers cfs self))"

text \<open>The steps of \<open>_get_metadatas\<close> after the scan, one for each comment of the source.\<close>

definition guess_name :: "shortcut \<Rightarrow> shortcut" where
  "guess_name s = (if name s = [] then name_setter (AStr (script s)) s else s)"

definition guess_generic_name :: "shortcut \<Rightarrow> shortcut" where
  "guess_generic_name s = (if generic_name s = [] then generic_name_setter (AStr (name s)) s else s)"

definition guess_icon :: "env \<Rightarrow> shortcut \<Rightarrow> error + shortcut" where
  "guess_icon e s =
     (if icon s = [] then
        (let data = joinpath (here e) ''data'' in
         if is_dir e data then
           and_then (glob e data (name s @ ''.*'')) (\<lambda>found.
           and_then (filter_icons e found) (\<lambda>icons.
           icon_setter (here e) (PList (map APath icons)) s))
         else icon_setter (here e) (Atom ANone) s)
      else Inr (s\<lparr>icon := remove_missing (path_exists e) 0 (icon s)\<rparr>))"

definition guess_description :: "env \<Rightarrow> shortcut \<Rightarrow> shortcut" where
  "guess_description e s =
     (if description s = [] then description_setter (get_description e) s else s)"

definition guess_category :: "env \<Rightarrow> shortcut \<Rightarrow> error + shortcut" where
  "guess_category e s =
     (if category s = [] then scan_classifiers (get_classifiers e) s else Inr s)"

definition guess_keywords :: "env \<Rightarrow> shortcut \<Rightarrow> error + shortcut" where
  "guess_keywords e s =
     (if keywords s = [] then keywords_setter (get_keywords e) s else Inr s)"

definition guess :: "env \<Rightarrow> shortcut \<Rightarrow> error + shortcut" where
  "guess e s =
     and_then (guess_icon e (guess_generic_name (guess_name s))) (\<lambda>s3.
     and_then (guess_category e (guess_description e s3)) (\<lambda>s5.
     guess_keywords e s5))"

text \<open>
  \<open>_get_metadatas(script)\<close>. \<open>Shortcut(script)\<close> makes the bare record and, through
  \<open>__new__\<close>, adds it to the registry; the scan that follows runs over the registry as
  it is then. The record the scan chose is changed in place, so the element of the
  registry changes with it, under the hash it was filed with. When the scan finds
  nothing, the bare record is the one filled in, and the registry is as \<open>__new__\<close> left
  it. The result is the record returned and the registry afterwards.
\<close>

definition get_metadatas ::
  "env \<Rightarrow> (string \<Rightarrow> int) \<Rightarrow> nat \<Rightarrow> string \<Rightarrow> registry \<Rightarrow> error + shortcut \<times> registry" where
  "get_metadatas e h pos scr reg =
     and_then (Shortcut_new (here e) h pos (defaults (AStr scr)) reg) (\<lambda>(bare, reg1).
       (case scan scr reg1 of
          None \<Rightarrow> and_then (guess e bare) (\<lambda>r. Inr (r, reg1))
        | Some i \<Rightarrow>
            and_then (guess e (snd (reg1 ! i))) (\<lambda>r. Inr (r, reg1[i := (fst (reg1 ! i), r)]))))"

section \<open>Sample data for the concrete runs\<close>

text \<open>
  A hash function to run the registry with: any function will do for the logic of the
  set; this one agrees with CPython in giving the empty string the hash 0.
\<close>

definition len_hash :: "string \<Rightarrow> int" where
  "len_hash s = int (length s)"

text \<open>
  The package of the resolution scenarios: the module lies in \<open>/pkg\<close> on a Linux system,
  there is no \<open>data\<close> directory and no file at all, and the distribution has the
  description \<open>A sample app\<close>, the one classifier \<open>Topic :: Utility\<close> and the keywords
  \<open>sample\<close> and \<open>app\<close>.
\<close>

definition sample_env :: env where
  "sample_env =
     \<lparr>here = PurePath ''/'' [''pkg''], sys_platform = ''linux'', os_name = ''posix'',
      is_dir = (\<lambda>p. False), path_exists = (\<lambda>p. False), glob = (\<lambda>p pat. Inr []),
      get_description = AStr ''A sample app'',
      get_classifiers = [''Topic :: Utility''],
      get_keywords = PList [AStr ''sample'', AStr ''app'']\<rparr>"

section \<open>Basic facts\<close>

lemma and_then_Inl [simp]: "and_then (Inl e) f = Inl e"
  by (simp add: and_then_def)

lemma and_then_Inr [simp]: "and_then (Inr x) f = f x"
  by (simp add: and_then_def)

text \<open>Only the string itself is \<open>in\<close> a list of strings.\<close>

lemma py_in_str: "py_in (Atom (AStr c)) xs = (c \<in> set xs)"
  by (induction xs) (auto simp: py_in_def)

lemma py_in_iff: "py_in s xs = (s \<in> (\<lambda>c. Atom (AStr c)) ` set xs)"
proof (cases s)
  case (Atom a)
  then show ?thesis
    by (cases a) (auto simp: py_in_def list_ex_iff)
next
  case (PList ys)
  then show ?thesis
    by (auto simp: py_in_def list_ex_iff)
qed

section \<open>Platform detection\<close>

text \<open>
  Claim C5, as the specification states it: platform detection returns one of the three
  tags \<open>darwin\<close>, \<open>win\<close>, \<open>linux\<close> for every runtime identifier, so the lookup of the
  icon extensions under its result always succeeds. It fails on FreeBSD, where
  \<open>sys.platform\<close> is \<open>freebsd13\<close> and \<open>os.name\<close> is \<open>posix\<close>: no branch of
  \<open>_get_platform\<close> applies, the function returns \<open>None\<close>, and \<open>_ICON_EXT[None]\<close> raises
  \<open>KeyError\<close>.
\<close>

theorem get_platform_counterexample:
  "get_platform ''freebsd13'' ''posix'' = None
   \<and> ICON_EXT_getitem (get_platform ''freebsd13'' ''posix'') = Inl KeyError"
  by (simp add: get_platform_def startswith_def ICON_EXT_getitem_def)

text \<open>
  Claim C5, amended: platform detection is a total function of \<open>sys.platform\<close> and
  \<open>os.name\<close>. It returns \<open>None\<close> exactly when \<open>sys.platform\<close> is not \<open>darwin\<close>, \<open>os.name\<close>
  is not \<open>nt\<close> and \<open>sys.platform\<close> starts with neither \<open>win\<close> nor \<open>linux\<close>, and the lookup
  of the icon extensions then raises \<open>KeyError\<close>. In every other case it returns one of
  the three tags \<open>darwin\<close>, \<open>win\<close>, \<open>linux\<close>, and the lookup succeeds.
\<close>

theorem get_platform_total:
  "(get_platform p n = None \<longleftrightarrow>
      p \<noteq> ''darwin'' \<and> n \<noteq> ''nt'' \<and> \<not> startswith p ''win'' \<and> \<not> startswith p ''linux'')
   \<and> (get_platform p n = None \<longrightarrow> ICON_EXT_getitem (get_platform p n) = Inl KeyError)
   \<and> (get_platform p n \<noteq> None \<longrightarrow>
        get_platform p n \<in> {Some ''darwin'', Some ''win'', Some ''linux''}
        \<and> (\<exists>exts. ICON_EXT_getitem (get_platform p n) = Inr exts))"
  by (auto simp: get_platform_def ICON_EXT_getitem_def ICON_EXT_def)

theorem get_platform_total_witness:
  "get_platform ''linux'' ''posix'' = Some ''linux''
   \<and> ICON_EXT_getitem (get_platform ''linux'' ''posix'') = Inr [''ico'', ''svg'', ''png'']
   \<and> get_platform ''win32'' ''nt'' = Some ''win''
   \<and> get_platform ''cygwin'' ''posix'' = None
   \<and> ICON_EXT_getitem (get_platform ''cygwin'' ''posix'') = Inl KeyError"
  using get_platform_total [of "''linux''" "''posix''"]
    get_platform_total [of "''cygwin''" "''posix''"]
  by (simp add: get_platform_def startswith_def ICON_EXT_getitem_def ICON_EXT_def)

section \<open>The setters\<close>

text \<open>
  Claim C7: a category that is neither one of the twelve Free Desktop names nor \<open>None\<close>
  is refused with a \<open>TypeError\<close>; each of the twelve names is accepted and stored as it
  is; \<open>None\<close> stores the empty string. The list has twelve names, all different.
\<close>

theorem category_setter_validates:
  "(s \<notin> (\<lambda>c. Atom (AStr c)) ` set FREE_DESKTOP_CATEGORIES \<and> s \<noteq> Atom ANone
      \<longrightarrow> category_setter s self = Inl TypeError)
   \<and> (c \<in> set FREE_DESKTOP_CATEGORIES
      \<longrightarrow> category_setter (Atom (AStr c)) self = Inr (self\<lparr>category := c\<rparr>))
   \<and> category_setter (Atom ANone) self = Inr (self\<lparr>category := []\<rparr>)
   \<and> length FREE_DESKTOP_CATEGORIES = 12 \<and> distinct FREE_DESKTOP_CATEGORIES"
proof -
  have none: "\<not> py_in (Atom ANone) FREE_DESKTOP_CATEGORIES"
    by (simp add: py_in_iff image_iff)
  have "length FREE_DESKTOP_CATEGORIES = 12 \<and> distinct FREE_DESKTOP_CATEGORIES"
    by (simp add: FREE_DESKTOP_CATEGORIES_def)
  then show ?thesis
    using none by (simp add: category_setter_def py_in_iff py_in_str)
qed

theorem category_setter_validates_witness:
  "category_setter (Atom (AStr ''Games'')) blank = Inl TypeError
   \<and> category_setter (Atom (AInt 3)) blank = Inl TypeError
   \<and> category_setter (Atom (AStr ''Utility'')) blank = Inr (blank\<lparr>category := ''Utility''\<rparr>)
   \<and> category_setter (Atom ANone) blank = Inr (blank\<lparr>category := []\<rparr>)"
  using category_setter_validates [of "Atom (AStr ''Games'')" blank "''Utility''"]
    category_setter_validates [of "Atom (AInt 3)" blank "''Utility''"]
  by (simp add: FREE_DESKTOP_CATEGORIES_def image_iff)

section \<open>Equality and hash\<close>

text \<open>
  Claim C9: two records are equal if and only if their names are equal, and records
  with equal names have equal hashes, whatever their other fields hold.
\<close>

theorem Shortcut_eq_hash_by_name:
  "(Shortcut_eq a (Obj b) \<longleftrightarrow> name a = name b)
   \<and> (name a = name b \<longrightarrow> Shortcut_hash h a = Shortcut_hash h b)"
  by (auto simp: Shortcut_eq_def Shortcut_hash_def)

theorem Shortcut_eq_hash_by_name_witness:
  "Shortcut_eq (blank\<lparr>script := ''one'', name := ''App''\<rparr>)
     (Obj (blank\<lparr>script := ''two'', name := ''App'', category := ''Game''\<rparr>))
   \<and> Shortcut_hash len_hash (blank\<lparr>script := ''one'', name := ''App''\<rparr>)
     = Shortcut_hash len_hash (blank\<lparr>script := ''two'', name := ''App'', category := ''Game''\<rparr>)
   \<and> \<not> Shortcut_eq (blank\<lparr>script := ''one'', name := ''App''\<rparr>)
     (Obj (blank\<lparr>script := ''one'', name := ''Other''\<rparr>))"
  using Shortcut_eq_hash_by_name
    [of "blank\<lparr>script := ''one'', name := ''App''\<rparr>"
        "blank\<lparr>script := ''two'', name := ''App'', category := ''Game''\<rparr>" len_hash]
    Shortcut_eq_hash_by_name
    [of "blank\<lparr>script := ''one'', name := ''App''\<rparr>"
        "blank\<lparr>script := ''one'', name := ''Other''\<rparr>" len_hash]
  by simp

end
